theory Spec2Isabelle
  imports Complex_Main
begin

section \<open>Exceptions, operations and the clock\<close>

text \<open>
  A Python exception is a value: its class name (\<open>type(e).__name__\<close>), the names of
  the classes it inherits from (for \<open>isinstance\<close> and \<open>except\<close> clauses), and its
  message.  FastAPI's \<open>HTTPException\<close> carries a status code and a detail string.
  Values of this type stand for instances of \<open>Exception\<close>, which is what every
  \<open>except Exception\<close> clause of the repository catches; signals that derive from
  \<open>BaseException\<close> only, such as the cancellation of a task, are not modelled.
\<close>

datatype exn =
    Exn (exn_class: string) (exn_bases: "string list") (exn_msg: string)
  | HTTPException (status_code: int) (detail: string)

fun type_name :: "exn \<Rightarrow> string" where
  "type_name (Exn c bs m) = c"
| "type_name (HTTPException s d) = ''HTTPException''"

fun isinstance :: "exn \<Rightarrow> string \<Rightarrow> bool" where
  "isinstance (Exn c bs m) k = (k = c \<or> k \<in> set bs)"
| "isinstance (HTTPException s d) k = (k = ''HTTPException'' \<or> k = ''Exception'')"

fun str_exn :: "exn \<Rightarrow> string" where
  "str_exn (Exn c bs m) = m"
| "str_exn (HTTPException s d) = d"

text \<open>
  An awaited callable is a transformer of the world outside the component: it returns a
  result or raises, and leaves the world changed.  A call that is never made leaves
  the world as it was.
\<close>

type_synonym ('w, 'a) operation = "'w \<Rightarrow> (exn + 'a) \<times> 'w"

section \<open>Circuit breaker (service-integration.py)\<close>

text \<open>
  \<open>CircuitBreaker\<close>: the fields set by \<open>__init__\<close>.  The state is one of the strings
  \<open>closed\<close>, \<open>open\<close>, \<open>half-open\<close>.  \<open>time.time()\<close> is the reading of a clock that
  belongs to the world (the module is used without being imported in the file, so the
  reading is an input of the model); times are seconds.
\<close>

record breaker =
  threshold :: int
  reset_timeout :: real
  failures :: int
  last_failure_time :: real
  state :: string

definition CircuitBreaker :: "int \<Rightarrow> real \<Rightarrow> breaker" where
  "CircuitBreaker thr rt =
     \<lparr>threshold = thr, reset_timeout = rt, failures = 0, last_failure_time = 0,
      state = ''closed''\<rparr>"

definition breaker_open_error :: exn where
  "breaker_open_error = Exn ''Exception'' [] ''Circuit breaker is open''"

text \<open>Lines 29 to 33 of \<open>call\<close>: the admission test made before the operation runs.\<close>

definition admit :: "breaker \<Rightarrow> real \<Rightarrow> exn + breaker" where
  "admit cb now =
     (if state cb = ''open'' then
        (if now - last_failure_time cb > reset_timeout cb
         then Inr (cb\<lparr>state := ''half-open''\<rparr>)
         else Inl breaker_open_error)
      else Inr cb)"

text \<open>Lines 35 to 46: the operation runs and its outcome is recorded.\<close>

definition attempt ::
  "breaker \<Rightarrow> ('w \<Rightarrow> real) \<Rightarrow> ('w, 'a) operation \<Rightarrow> 'w \<Rightarrow> (exn + 'a) \<times> breaker \<times> 'w" where
  "attempt cb time func w =
     (case func w of
        (Inr result, w1) \<Rightarrow>
          (Inr result,
           (if state cb = ''half-open'' then cb\<lparr>state := ''closed'', failures := 0\<rparr> else cb),
           w1)
      | (Inl e, w1) \<Rightarrow>
          (let cb1 = cb\<lparr>failures := failures cb + 1\<rparr>;
               cb2 = cb1\<lparr>last_failure_time := time w1\<rparr>;
               cb3 = (if failures cb2 \<ge> threshold cb2 then cb2\<lparr>state := ''open''\<rparr> else cb2)
           in (Inl e, cb3, w1)))"

definition call ::
  "breaker \<Rightarrow> ('w \<Rightarrow> real) \<Rightarrow> ('w, 'a) operation \<Rightarrow> 'w \<Rightarrow> (exn + 'a) \<times> breaker \<times> 'w" where
  "call cb time func w =
     (case admit cb (time w) of
        Inl e \<Rightarrow> (Inl e, cb, w)
      | Inr cb1 \<Rightarrow> attempt cb1 time func w)"


text \<open>
  The only invariant of the breaker: it is open, or half-open, only with at least
  \<open>threshold\<close> failures counted.  \<open>__init__\<close> establishes it and every \<open>call\<close>
  keeps it.
\<close>

definition breaker_inv :: "breaker \<Rightarrow> bool" where
  "breaker_inv cb =
     (state cb = ''open'' \<or> state cb = ''half-open'' \<longrightarrow> threshold cb \<le> failures cb)"

section \<open>Retry decorator (error-handling.py)\<close>

text \<open>
  \<open>ErrorContext\<close> as the handlers see it: the class name, the message and the retry
  count of the metadata (the time stamp, the traceback and the printed arguments are
  text for the log).
\<close>

record ErrorContext =
  error_type :: string
  message :: string
  retry_count :: int

type_synonym 'w handler = "ErrorContext \<Rightarrow> 'w \<Rightarrow> (exn + unit) \<times> 'w"

text \<open>
  The model keeps a trace of what the wrapper does besides changing the world: each
  invocation of the wrapped function and each \<open>asyncio.sleep\<close> with its delay, in
  order.  The trace is not a variable of the source; it is what a test double of the
  function and of \<open>sleep\<close> would record.
\<close>

datatype event = Invoked | Slept real

text \<open>\<open>raise None\<close> is a \<open>TypeError\<close> in Python.\<close>

definition raise_none_error :: exn where
  "raise_none_error =
     Exn ''TypeError'' [''Exception''] ''exceptions must derive from BaseException''"

text \<open>
  Lines 65 to 70: the handler registered for the class name of the exception, if any,
  is awaited; an exception of the handler itself is logged and dropped.
\<close>

definition run_handler :: "(string \<rightharpoonup> 'w handler) \<Rightarrow> exn \<Rightarrow> int \<Rightarrow> 'w \<Rightarrow> 'w" where
  "run_handler handlers e retries w =
     (case handlers (type_name e) of
        None \<Rightarrow> w
      | Some handler \<Rightarrow>
          snd (handler \<lparr>error_type = type_name e, message = str_exn e,
                        retry_count = retries\<rparr> w))"

text \<open>
  The \<open>while\<close> loop of \<open>wrapper\<close>, with the local variables \<open>retries\<close> and
  \<open>last_error\<close> as arguments; \<open>2 ** (retries - 1)\<close> is \<open>powi\<close>, delays are real numbers.
\<close>

function wrapper_loop ::
  "int \<Rightarrow> real \<Rightarrow> (string \<rightharpoonup> 'w handler) \<Rightarrow> ('w, 'a) operation \<Rightarrow>
   int \<Rightarrow> exn option \<Rightarrow> event list \<Rightarrow> 'w \<Rightarrow> (exn + 'a) \<times> event list \<times> 'w" where
  "wrapper_loop max_retries retry_delay handlers func retries last_error tr w =
     (if retries < max_retries then
        (case func w of
           (Inr result, w1) \<Rightarrow> (Inr result, tr @ [Invoked], w1)
         | (Inl e, w1) \<Rightarrow>
             (let retries1 = retries + 1;
                  w2 = run_handler handlers e retries1 w1;
                  tr1 = (if retries1 < max_retries
                         then tr @ [Invoked, Slept (retry_delay * 2 powi (retries1 - 1))]
                         else tr @ [Invoked])
              in wrapper_loop max_retries retry_delay handlers func retries1 (Some e) tr1 w2))
      else
        (case last_error of
           None \<Rightarrow> (Inl raise_none_error, tr, w)
         | Some e \<Rightarrow> (Inl e, tr, w)))"
  by pat_completeness auto
termination
  by (relation "measure (\<lambda>(max_retries, retry_delay, handlers, func, retries, last_error, tr, w).
        nat (max_retries - retries))") auto

declare wrapper_loop.simps [simp del]

definition with_error_handling ::
  "int \<Rightarrow> real \<Rightarrow> (string \<rightharpoonup> 'w handler) \<Rightarrow> ('w, 'a) operation \<Rightarrow> 'w \<Rightarrow>
   (exn + 'a) \<times> event list \<times> 'w" where
  "with_error_handling max_retries retry_delay handlers func w =
     wrapper_loop max_retries retry_delay handlers func 0 None [] w"






section \<open>Service gateway (service-integration.py)\<close>

text \<open>Python's \<open>str\<close> of an integer.\<close>

fun digits :: "nat \<Rightarrow> string" where
  "digits n =
     (if n < 10 then [''0123456789'' ! n]
      else digits (n div 10) @ [''0123456789'' ! (n mod 10)])"

declare digits.simps [simp del]

definition str_int :: "int \<Rightarrow> string" where
  "str_int i = (if i < 0 then CHR ''-'' # digits (nat (- i)) else digits (nat i))"

record ServiceConfig =
  name :: string
  host :: string
  port :: int
  timeout :: real
  retry_count :: int
  circuit_breaker_threshold :: int





text \<open>
  \<open>backoff.on_exception(wait_gen, exception, max_tries)\<close> of the backoff library: the
  target is called; an exception that is an instance of one of the listed classes is
  retried after a wait unless the number of tries has reached \<open>max_tries\<close>; any other
  exception leaves at once.  The loop is \<open>while True\<close>, so the model is partial.  The
  number of tries made is returned with the result.
\<close>

partial_function (option) on_exception ::
  "string list \<Rightarrow> int \<Rightarrow> ('s \<Rightarrow> (exn + 'a) \<times> 's) \<Rightarrow> int \<Rightarrow> 's \<Rightarrow>
   ((exn + 'a) \<times> int \<times> 's) option" where
  "on_exception classes max_tries target tries s =
     (let tries1 = tries + 1 in
      case target s of
        (Inr ret, s1) \<Rightarrow> Some (Inr ret, tries1, s1)
      | (Inl e, s1) \<Rightarrow>
          if list_ex (isinstance e) classes then
            (if tries1 = max_tries then Some (Inl e, tries1, s1)
             else on_exception classes max_tries target tries1 s1)
          else Some (Inl e, tries1, s1))"


section \<open>Security manager and middleware (security-config.py)\<close>

definition RATE_LIMIT_MINUTE :: int where
  "RATE_LIMIT_MINUTE = 100"

definition RATE_LIMIT_HOUR :: int where
  "RATE_LIMIT_HOUR = 1000"

datatype Role = ADMIN | USER | SERVICE

record UserData =
  username :: string
  role :: Role
  permissions :: "string list"
  rate_limit :: "int option"

text \<open>
  One window of a limiter is the dictionary with the keys \<open>count\<close> and \<open>reset\<close>; a
  limiter is the dictionary with the keys \<open>minute\<close> and \<open>hour\<close>.  A \<open>datetime\<close> is a
  number of seconds, so that \<open>(a - b).total_seconds()\<close> is \<open>a - b\<close>.
\<close>

record window =
  count :: int
  reset :: real

record limiter =
  minute :: window
  hour :: window

record SecurityManager =
  token_blacklist :: "string set"
  rate_limiters :: "string \<rightharpoonup> limiter"

text \<open>
  The claims that \<open>jwt.decode\<close> returns, as far as \<open>verify_token\<close> reads them:
  \<open>sub\<close>, \<open>role\<close> and \<open>permissions\<close>, each possibly absent.
\<close>

record payload =
  sub :: "string option"
  role_claim :: "string option"
  permissions_claim :: "string list option"

text \<open>
  Python passes any object where a token is expected: \<open>SecurityMiddleware\<close> passes a
  string, \<open>require_permissions\<close> passes a list of strings.
\<close>

datatype pyval = PStr string | PList "string list"

definition unhashable_list_error :: exn where
  "unhashable_list_error = Exn ''TypeError'' [''Exception''] ''unhashable type: list''"

text \<open>\<open>Role(role)\<close>: the member with that value, or \<open>ValueError\<close>.\<close>

definition Role_of :: "string option \<Rightarrow> exn + Role" where
  "Role_of r =
     (if r = Some ''admin'' then Inr ADMIN
      else if r = Some ''user'' then Inr USER
      else if r = Some ''service'' then Inr SERVICE
      else Inl (Exn ''ValueError'' [''Exception'']
                  ((case r of None \<Rightarrow> ''None'' | Some v \<Rightarrow> v) @ '' is not a valid Role'')))"

text \<open>
  \<open>verify_token\<close>.  \<open>jwt_decode\<close> stands for \<open>jwt.decode\<close> with the configured key and
  algorithm.  Membership of a list in a set raises \<open>TypeError\<close>, which the
  \<open>except JWTError\<close> clause lets through, as it does \<open>HTTPException\<close> and the
  \<open>ValueError\<close> of \<open>Role\<close>.
\<close>

definition verify_token ::
  "SecurityManager \<Rightarrow> (string \<Rightarrow> exn + payload) \<Rightarrow> pyval \<Rightarrow> exn + UserData" where
  "verify_token sm jwt_decode token =
     (case token of
        PList xs \<Rightarrow> Inl unhashable_list_error
      | PStr t \<Rightarrow>
          if t \<in> token_blacklist sm then Inl (HTTPException 401 ''Token has been revoked'')
          else
            (case jwt_decode t of
               Inl e \<Rightarrow>
                 if isinstance e ''JWTError''
                 then Inl (HTTPException 401 ''Could not validate credentials'')
                 else Inl e
             | Inr pl \<Rightarrow>
                 (case sub pl of
                    None \<Rightarrow> Inl (HTTPException 401 ''Could not validate credentials'')
                  | Some uname \<Rightarrow>
                      (case Role_of (role_claim pl) of
                         Inl e \<Rightarrow> Inl e
                       | Inr r \<Rightarrow>
                           Inr \<lparr>username = uname, role = r,
                                permissions = (case permissions_claim pl of
                                                 None \<Rightarrow> [] | Some ps \<Rightarrow> ps),
                                rate_limit = None\<rparr>))))"

definition check_permission ::
  "SecurityManager \<Rightarrow> (string \<Rightarrow> exn + payload) \<Rightarrow> pyval \<Rightarrow> string list \<Rightarrow> exn + bool" where
  "check_permission sm jwt_decode token required_permissions =
     (case verify_token sm jwt_decode token of
        Inl e \<Rightarrow> Inl e
      | Inr user_data \<Rightarrow>
          if role user_data = ADMIN then Inr True
          else Inr (list_all (\<lambda>perm. perm \<in> set (permissions user_data)) required_permissions))"

text \<open>
  \<open>require_permissions(permissions)\<close> returns \<open>permission_checker\<close>; this is the checker
  applied to the user that \<open>get_current_user\<close> supplies.  It hands \<open>user.permissions\<close>
  to \<open>check_permission\<close> in the place of the token.
\<close>

definition require_permissions ::
  "SecurityManager \<Rightarrow> (string \<Rightarrow> exn + payload) \<Rightarrow> string list \<Rightarrow> UserData \<Rightarrow> exn + bool" where
  "require_permissions sm jwt_decode perms user =
     (case check_permission sm jwt_decode (PList (permissions user)) perms of
        Inl e \<Rightarrow> Inl e
      | Inr ok \<Rightarrow>
          if \<not> ok then Inl (HTTPException 403 ''Insufficient permissions'') else Inr True)"

text \<open>
  \<open>rate_limit_check\<close>.  \<open>datetime.utcnow()\<close> is read up to three times: for each window
  of a limiter that is created, then for \<open>now\<close>; the three readings are arguments.
\<close>

definition rate_limit_check ::
  "SecurityManager \<Rightarrow> UserData \<Rightarrow> real \<Rightarrow> real \<Rightarrow> real \<Rightarrow> bool \<times> SecurityManager" where
  "rate_limit_check sm user_data t_minute t_hour now =
     (let limiter0 =
            (case rate_limiters sm (username user_data) of
               None \<Rightarrow> \<lparr>minute = \<lparr>count = 0, reset = t_minute\<rparr>,
                         hour = \<lparr>count = 0, reset = t_hour\<rparr>\<rparr>
             | Some l \<Rightarrow> l);
          limiter1 =
            (if now - reset (minute limiter0) > 60
             then limiter0\<lparr>minute := \<lparr>count = 0, reset = now\<rparr>\<rparr> else limiter0);
          limiter2 =
            (if now - reset (hour limiter1) > 3600
             then limiter1\<lparr>hour := \<lparr>count = 0, reset = now\<rparr>\<rparr> else limiter1)
      in
        if count (minute limiter2) \<ge> RATE_LIMIT_MINUTE \<or> count (hour limiter2) \<ge> RATE_LIMIT_HOUR
        then (False, sm\<lparr>rate_limiters := (rate_limiters sm)(username user_data \<mapsto> limiter2)\<rparr>)
        else
          (True,
           sm\<lparr>rate_limiters := (rate_limiters sm)(username user_data \<mapsto>
                limiter2\<lparr>minute := (minute limiter2)\<lparr>count := count (minute limiter2) + 1\<rparr>,
                         hour := (hour limiter2)\<lparr>count := count (hour limiter2) + 1\<rparr>\<rparr>)\<rparr>))"

text \<open>Python's \<open>str.replace(old, new)\<close>: every occurrence, from the left.\<close>

function replace_all :: "string \<Rightarrow> string \<Rightarrow> string \<Rightarrow> string" where
  "replace_all old new s =
     (if old = [] \<or> s = [] then s
      else if take (length old) s = old then new @ replace_all old new (drop (length old) s)
      else hd s # replace_all old new (tl s))"
  by pat_completeness auto
termination
  by (relation "measure (\<lambda>(old, new, s). length s)") auto

declare replace_all.simps [simp del]

record request =
  headers :: "string \<rightharpoonup> string"

record response =
  resp_headers :: "string \<rightharpoonup> string"
  body :: string

definition rate_limit_exceeded :: exn where
  "rate_limit_exceeded = HTTPException 429 ''Rate limit exceeded''"

text \<open>
  \<open>SecurityMiddleware.__call__\<close>.  \<open>call_next\<close> is the rest of the application; the
  final \<open>except\<close> clause logs and raises again.
\<close>

definition SecurityMiddleware_call ::
  "SecurityManager \<Rightarrow> (string \<Rightarrow> exn + payload) \<Rightarrow> real \<Rightarrow> real \<Rightarrow> real \<Rightarrow> request \<Rightarrow>
   (request \<Rightarrow> ('w, response) operation) \<Rightarrow> 'w \<Rightarrow> (exn + response) \<times> SecurityManager \<times> 'w" where
  "SecurityMiddleware_call sm jwt_decode t_minute t_hour now req call_next w =
     (let token = replace_all ''Bearer '' ''''
                    (case headers req ''Authorization'' of None \<Rightarrow> '''' | Some v \<Rightarrow> v)
      in
        if token \<noteq> '''' then
          (case verify_token sm jwt_decode (PStr token) of
             Inl e \<Rightarrow> (Inl e, sm, w)
           | Inr user_data \<Rightarrow>
               (case rate_limit_check sm user_data t_minute t_hour now of
                  (False, sm1) \<Rightarrow> (Inl rate_limit_exceeded, sm1, w)
                | (True, sm1) \<Rightarrow>
                    (case call_next req w of
                       (Inl e, w1) \<Rightarrow> (Inl e, sm1, w1)
                     | (Inr resp, w1) \<Rightarrow>
                         (case rate_limiters sm1 (username user_data) of
                            None \<Rightarrow>
                              (Inl (Exn ''KeyError'' [''LookupError'', ''Exception'']
                                      (username user_data)), sm1, w1)
                          | Some l \<Rightarrow>
                              (Inr (resp\<lparr>resp_headers := (resp_headers resp)
                                      (''X-Rate-Limit-Remaining'' \<mapsto>
                                         str_int (RATE_LIMIT_MINUTE - count (minute l)))\<rparr>),
                               sm1, w1)))))
        else (case call_next req w of (r, w1) \<Rightarrow> (r, sm, w1)))"

section \<open>Concrete scenarios\<close>


definition fail_with :: "exn \<Rightarrow> (real \<times> nat, 'a) operation" where
  "fail_with e w = (Inl e, (fst w + 1, Suc (snd w)))"

definition timeout_error :: exn where
  "timeout_error = Exn ''TimeoutError'' [''OSError'', ''Exception''] ''''"


text \<open>A breaker with threshold 3 after three failures, the last at time 100.\<close>

definition tripped :: breaker where
  "tripped =
     \<lparr>threshold = 3, reset_timeout = 60, failures = 3, last_failure_time = 100,
      state = ''open''\<rparr>"



definition always_failing :: "(nat, string) operation" where
  "always_failing w = (Inl timeout_error, Suc w)"


text \<open>A token decoder that accepts every token with the same claims; an administrator.\<close>

definition decode_as :: "payload \<Rightarrow> string \<Rightarrow> exn + payload" where
  "decode_as pl t = Inr pl"

definition root_claims :: payload where
  "root_claims = \<lparr>sub = Some ''root'', role_claim = Some ''admin'', permissions_claim = None\<rparr>"

definition root_user :: UserData where
  "root_user = \<lparr>username = ''root'', role = ADMIN, permissions = [], rate_limit = None\<rparr>"

definition fresh_manager :: SecurityManager where
  "fresh_manager = \<lparr>token_blacklist = {}, rate_limiters = Map.empty\<rparr>"

text \<open>The manager after 100 requests of \<open>root\<close> in the windows opened at time 0.\<close>

definition busy_manager :: SecurityManager where
  "busy_manager =
     \<lparr>token_blacklist = {},
      rate_limiters = [''root'' \<mapsto> \<lparr>minute = \<lparr>count = 100, reset = 0\<rparr>,
                                    hour = \<lparr>count = 100, reset = 0\<rparr>\<rparr>]\<rparr>"

definition bearer_request :: request where
  "bearer_request = \<lparr>headers = [''Authorization'' \<mapsto> ''Bearer abc'']\<rparr>"

definition handler_ok :: "request \<Rightarrow> (nat, response) operation" where
  "handler_ok req w = (Inr \<lparr>resp_headers = Map.empty, body = ''ok''\<rparr>, Suc w)"

text \<open>Successive calls through one breaker.\<close>

fun calls ::
  "breaker \<Rightarrow> ('w \<Rightarrow> real) \<Rightarrow> ('w, 'a) operation list \<Rightarrow> 'w \<Rightarrow> breaker \<times> 'w" where
  "calls cb time [] w = (cb, w)"
| "calls cb time (func # funcs) w =
     (case call cb time func w of (r, cb1, w1) \<Rightarrow> calls cb1 time funcs w1)"

section \<open>Circuit breaker: proofs\<close>

lemma breaker_inv_init: "breaker_inv (CircuitBreaker thr rt)"
  by (simp add: breaker_inv_def CircuitBreaker_def)

lemma breaker_inv_call:
  "breaker_inv cb \<Longrightarrow> call cb time func w = (r, cb', w') \<Longrightarrow> breaker_inv cb'"
  by (auto simp: call_def admit_def attempt_def breaker_inv_def Let_def
           split: if_splits sum.splits prod.splits)

text \<open>
  The scenario of the specification: threshold 3, three failing calls in a row open
  the breaker.
\<close>

lemma three_failures_trip:
  "calls (CircuitBreaker 3 60) fst
     [fail_with timeout_error, fail_with timeout_error,
      fail_with timeout_error :: (real \<times> nat, string) operation] (97, 0) =
   (tripped, (100, 3))"
  by (simp add: call_def admit_def attempt_def CircuitBreaker_def fail_with_def tripped_def)








section \<open>Retry decorator: proofs\<close>















text \<open>
  C10.  With \<open>max_retries \<le> 0\<close> the loop body never runs: the wrapped operation is not
  invoked (empty trace, world unchanged) and \<open>raise last_error\<close> with \<open>last_error = None\<close>
  raises \<open>TypeError\<close>, neither a result nor a failure of the operation.
\<close>

theorem non_positive_max_retries:
  "max_retries \<le> 0 \<Longrightarrow>
   with_error_handling max_retries retry_delay handlers func w = (Inl raise_none_error, [], w)"
  unfolding with_error_handling_def by (subst wrapper_loop.simps) simp

theorem non_positive_max_retries_witness:
  "(0 :: int) \<le> 0 \<and>
   with_error_handling 0 1 Map.empty always_failing 0 = (Inl raise_none_error, [], 0)"
  using non_positive_max_retries [of 0 1 Map.empty always_failing 0] by simp

section \<open>Security manager and middleware: proofs\<close>

text \<open>
  C6.  Take the limiter of the principal (created with both counts 0 when there is
  none), and let \<open>m\<close> and \<open>h\<close> be its minute and hour counts after a window older than
  its length (60 s, 3600 s) has been reset to 0.  If \<open>m\<close> or \<open>h\<close> has reached its limit
  (100, 1000) the check returns false and stores the counts \<open>m\<close> and \<open>h\<close>; otherwise it
  returns true and stores \<open>m + 1\<close> and \<open>h + 1\<close>.
\<close>

theorem rate_limit_check_counts:
  "let before = (case rate_limiters sm (username u) of
                   None \<Rightarrow> \<lparr>minute = \<lparr>count = 0, reset = t_minute\<rparr>,
                             hour = \<lparr>count = 0, reset = t_hour\<rparr>\<rparr>
                 | Some l \<Rightarrow> l);
       m = (if now - reset (minute before) > 60 then 0 else count (minute before));
       h = (if now - reset (hour before) > 3600 then 0 else count (hour before));
       res = rate_limit_check sm u t_minute t_hour now
   in (m \<ge> 100 \<or> h \<ge> 1000 \<longrightarrow>
         fst res = False \<and>
         (\<exists>l. rate_limiters (snd res) (username u) = Some l \<and>
              count (minute l) = m \<and> count (hour l) = h)) \<and>
      (\<not> (m \<ge> 100 \<or> h \<ge> 1000) \<longrightarrow>
         fst res = True \<and>
         (\<exists>l. rate_limiters (snd res) (username u) = Some l \<and>
              count (minute l) = m + 1 \<and> count (hour l) = h + 1))"
  by (simp add: rate_limit_check_def Let_def RATE_LIMIT_MINUTE_def RATE_LIMIT_HOUR_def)

text \<open>
  The principal at its minute limit is denied at time 10 and keeps its counts; at time
  61 the minute window is reset and the call is allowed; a new principal is allowed.
\<close>

theorem rate_limit_check_counts_witness:
  "fst (rate_limit_check busy_manager root_user 10 10 10) = False \<and>
   map_option (count \<circ> minute) (rate_limiters (snd (rate_limit_check busy_manager root_user 10 10 10)) ''root'') = Some 100 \<and>
   map_option (count \<circ> hour) (rate_limiters (snd (rate_limit_check busy_manager root_user 10 10 10)) ''root'') = Some 100 \<and>
   fst (rate_limit_check busy_manager root_user 61 61 61) = True \<and>
   map_option (count \<circ> minute) (rate_limiters (snd (rate_limit_check busy_manager root_user 61 61 61)) ''root'') = Some 1 \<and>
   map_option (count \<circ> hour) (rate_limiters (snd (rate_limit_check busy_manager root_user 61 61 61)) ''root'') = Some 101 \<and>
   fst (rate_limit_check fresh_manager root_user 10 10 10) = True \<and>
   map_option (count \<circ> minute) (rate_limiters (snd (rate_limit_check fresh_manager root_user 10 10 10)) ''root'') = Some 1 \<and>
   map_option (count \<circ> hour) (rate_limiters (snd (rate_limit_check fresh_manager root_user 10 10 10)) ''root'') = Some 1"
  using rate_limit_check_counts
      [where sm = busy_manager and u = root_user and t_minute = 10 and t_hour = 10 and now = 10]
    rate_limit_check_counts
      [where sm = busy_manager and u = root_user and t_minute = 61 and t_hour = 61 and now = 61]
    rate_limit_check_counts
      [where sm = fresh_manager and u = root_user and t_minute = 10 and t_hour = 10 and now = 10]
  by (auto simp: Let_def busy_manager_def fresh_manager_def root_user_def)

text \<open>
  C9.  The check reads only the user name of the principal: two principals that differ
  in \<open>rate_limit\<close> alone get the same answer and leave the same limiter state.
\<close>

theorem rate_limit_ignores_override:
  "rate_limit_check sm (u\<lparr>rate_limit := r\<rparr>) t_minute t_hour now =
   rate_limit_check sm (u\<lparr>rate_limit := r'\<rparr>) t_minute t_hour now"
  by (simp add: rate_limit_check_def Let_def)

lemma bearer_token: "replace_all ''Bearer '' '''' ''Bearer abc'' = ''abc''"
  by (simp add: replace_all.simps)

lemma verify_root: "verify_token sm (decode_as root_claims) (PStr t) =
    (if t \<in> token_blacklist sm then Inl (HTTPException 401 ''Token has been revoked'') else Inr root_user)"
  by (simp add: verify_token_def decode_as_def root_claims_def Role_of_def root_user_def)

text \<open>
  C7 as stated fails.  The administrator \<open>root\<close>, at the minute limit, is rejected with
  status 429 and the handler does not run; and the first request of \<open>root\<close> consumes one
  unit of both counters.
\<close>

theorem admin_bypass_counterexample:
  "map_sum id role (verify_token busy_manager (decode_as root_claims) (PStr ''abc'')) = Inr ADMIN \<and>
   fst (SecurityMiddleware_call busy_manager (decode_as root_claims) 10 10 10 bearer_request
          handler_ok 0) = Inl (HTTPException 429 ''Rate limit exceeded'') \<and>
   snd (snd (SecurityMiddleware_call busy_manager (decode_as root_claims) 10 10 10 bearer_request
          handler_ok 0)) = 0 \<and>
   map_option (count \<circ> minute)
     (rate_limiters (fst (snd (SecurityMiddleware_call fresh_manager (decode_as root_claims)
        10 10 10 bearer_request handler_ok 0))) ''root'') = Some 1 \<and>
   map_option (count \<circ> hour)
     (rate_limiters (fst (snd (SecurityMiddleware_call fresh_manager (decode_as root_claims)
        10 10 10 bearer_request handler_ok 0))) ''root'') = Some 1"
  by (simp add: SecurityMiddleware_call_def bearer_request_def bearer_token verify_root
        busy_manager_def fresh_manager_def rate_limit_check_def root_user_def handler_ok_def
        RATE_LIMIT_MINUTE_def RATE_LIMIT_HOUR_def rate_limit_exceeded_def Let_def)

text \<open>
  C7, amended.  For every request that bears a valid token, whatever the role of its
  principal, Admin included, the middleware runs the rate-limit check for the principal.
  When the check denies, the request is rejected with status 429, the limiter state is
  the one the check left and the handler is not run.  When the check allows, the
  limiter state is the one the check left, with both counters consumed, and the handler
  runs.
\<close>

theorem middleware_limits_every_role:
  assumes "replace_all ''Bearer '' ''''
             (case headers req ''Authorization'' of None \<Rightarrow> '''' | Some v \<Rightarrow> v) = token"
    and "token \<noteq> ''''"
    and "verify_token sm jwt_decode (PStr token) = Inr u"
  shows
    "(fst (rate_limit_check sm u t_minute t_hour now) = False \<longrightarrow>
        SecurityMiddleware_call sm jwt_decode t_minute t_hour now req call_next w =
          (Inl rate_limit_exceeded, snd (rate_limit_check sm u t_minute t_hour now), w)) \<and>
     (fst (rate_limit_check sm u t_minute t_hour now) = True \<longrightarrow>
        fst (snd (SecurityMiddleware_call sm jwt_decode t_minute t_hour now req call_next w)) =
          snd (rate_limit_check sm u t_minute t_hour now) \<and>
        snd (snd (SecurityMiddleware_call sm jwt_decode t_minute t_hour now req call_next w)) =
          snd (call_next req w))"
proof (cases "rate_limit_check sm u t_minute t_hour now")
  case (Pair ok sm1)
  have present: "rate_limiters sm1 (username u) \<noteq> None" if "ok"
    using Pair that by (auto simp: rate_limit_check_def Let_def split: if_splits)
  show ?thesis
  proof (cases ok)
    case False
    with assms Pair show ?thesis
      by (simp add: SecurityMiddleware_call_def)
  next
    case True
    with present obtain l where "rate_limiters sm1 (username u) = Some l" by auto
    with assms Pair True show ?thesis
      by (cases "call_next req w")
         (auto simp: SecurityMiddleware_call_def split: sum.splits)
  qed
qed

theorem middleware_limits_every_role_witness:
  "replace_all ''Bearer '' ''''
     (case headers bearer_request ''Authorization'' of None \<Rightarrow> '''' | Some v \<Rightarrow> v) = ''abc'' \<and>
   ''abc'' \<noteq> '''' \<and>
   verify_token busy_manager (decode_as root_claims) (PStr ''abc'') = Inr root_user \<and>
   role root_user = ADMIN \<and>
   fst (rate_limit_check busy_manager root_user 10 10 10) = False \<and>
   SecurityMiddleware_call busy_manager (decode_as root_claims) 10 10 10 bearer_request
     handler_ok 0 =
     (Inl rate_limit_exceeded, snd (rate_limit_check busy_manager root_user 10 10 10), 0) \<and>
   fst (rate_limit_check fresh_manager root_user 10 10 10) = True \<and>
   fst (snd (SecurityMiddleware_call fresh_manager (decode_as root_claims) 10 10 10
          bearer_request handler_ok 0)) =
     snd (rate_limit_check fresh_manager root_user 10 10 10) \<and>
   snd (snd (SecurityMiddleware_call fresh_manager (decode_as root_claims) 10 10 10
          bearer_request handler_ok 0)) = 1"
proof -
  have t: "replace_all ''Bearer '' ''''
     (case headers bearer_request ''Authorization'' of None \<Rightarrow> '''' | Some v \<Rightarrow> v) = ''abc''"
    by (simp add: bearer_request_def bearer_token)
  have n: "''abc'' \<noteq> ''''" by simp
  have vb: "verify_token busy_manager (decode_as root_claims) (PStr ''abc'') = Inr root_user"
    by (simp add: verify_root busy_manager_def)
  have vf: "verify_token fresh_manager (decode_as root_claims) (PStr ''abc'') = Inr root_user"
    by (simp add: verify_root fresh_manager_def)
  have d: "fst (rate_limit_check busy_manager root_user 10 10 10) = False"
    by (simp add: rate_limit_check_def busy_manager_def root_user_def
          RATE_LIMIT_MINUTE_def RATE_LIMIT_HOUR_def)
  have a: "fst (rate_limit_check fresh_manager root_user 10 10 10) = True"
    by (simp add: rate_limit_check_def fresh_manager_def root_user_def
          RATE_LIMIT_MINUTE_def RATE_LIMIT_HOUR_def)
  have h: "snd (handler_ok bearer_request 0) = 1" by (simp add: handler_ok_def)
  show ?thesis
    using middleware_limits_every_role [OF t n vb, of 10 10 10 handler_ok 0]
      middleware_limits_every_role [OF t n vf, of 10 10 10 handler_ok 0]
      t vb d a h
    by (simp add: root_user_def)
qed

text \<open>
  What \<open>check_permission\<close> does when it is given a token: access for Admin, and for any
  other role exactly when every required permission is among those of the principal.
\<close>

lemma check_permission_token:
  "verify_token sm jwt_decode (PStr t) = Inr u \<Longrightarrow>
   check_permission sm jwt_decode (PStr t) required =
     Inr (role u = ADMIN \<or> set required \<subseteq> set (permissions u))"
  by (auto simp: check_permission_def list_all_iff)

lemma require_permissions_raises:
  "require_permissions sm jwt_decode perms user = Inl unhashable_list_error"
  by (simp add: require_permissions_def check_permission_def verify_token_def)

text \<open>
  C8 does not hold of the code.  The checker built by \<open>require_permissions\<close> hands the
  permission list of the user to \<open>check_permission\<close> where the token belongs, and the
  test of that list against the revocation set raises \<open>TypeError\<close>: the administrator
  \<open>root\<close> is not granted access to a route that requires \<open>read\<close>, and the failure is not
  the 403 of a denial.
\<close>

theorem require_permissions_admin_type_error:
  "role root_user = ADMIN \<and>
   require_permissions fresh_manager (decode_as root_claims) [''read''] root_user =
     Inl unhashable_list_error"
  by (simp add: require_permissions_raises root_user_def)

section \<open>Retry policies and the class of the failure: proofs\<close>



lemma on_exception_give_up:
  assumes "target s = (Inl e, s1)" and "tries + 1 = max_tries"
  shows "on_exception classes max_tries target tries s = Some (Inl e, max_tries, s1)"
  using assms by (subst on_exception.simps) (simp add: Let_def)




end
